theory Spec2Isabelle
  imports Main "HOL-Library.Word"
begin

section \<open>The Steam idler of \<open>src/index.js\<close>\<close>

text \<open>
  \<open>src/index.js\<close> holds two scripts one after the other.  The first (lines 1-93) logs on
  once with options built at module level and may answer a Steam Guard prompt with the
  \<open>AUTHCODE\<close> variable.  The second (lines 94-260) builds the options anew for every
  attempt, aborts on Steam Guard and retries failed log-ons with exponential backoff.
  Definitions of the first script carry the suffix \<open>_v1\<close>; the others belong to the
  second script and keep the names of the source.
  Both scripts first load \<open>./keep_alive.js\<close>, a module that is not part of the source
  at hand; it has no part in the model.

  JavaScript values are modelled as follows: an environment variable is a
  \<open>string option\<close> (\<open>None\<close> is \<open>undefined\<close>), a \<open>Buffer\<close> is a list of bytes, a
  number that the script only ever uses as an integer is an \<open>int\<close>.  Everything the
  process does to the outside world is appended to a trace of effects; \<open>process.exit\<close>
  sets \<open>exited\<close>, after which nothing runs.
\<close>

subsection \<open>Values\<close>

type_synonym buffer = "8 word list"

text \<open>\<open>Boolean(v)\<close> for a string or \<open>undefined\<close>: the empty string is falsy.\<close>

definition truthy :: "string option \<Rightarrow> bool" where
  "truthy v = (case v of None \<Rightarrow> False | Some t \<Rightarrow> t \<noteq> [])"

text \<open>\<open>a || b\<close> on such values.\<close>

definition js_or :: "string option \<Rightarrow> string option \<Rightarrow> string option" where
  "js_or a b = (if truthy a then a else b)"

text \<open>
  An error object or a log-on response, as far as the script reads it: the properties
  \<open>message\<close> and \<open>eresult\<close>, each possibly absent.  \<open>eresult\<close> is the integer result code
  of the Steam protocol (1 is OK, 84 is RateLimitExceeded).
\<close>

record steam_obj =
  message :: "string option"
  eresult :: "int option"

text \<open>\<open>Boolean(n)\<close> for an integer or \<open>undefined\<close>: zero is falsy.\<close>

definition truthy_num :: "int option \<Rightarrow> bool" where
  "truthy_num v = (case v of None \<Rightarrow> False | Some n \<Rightarrow> n \<noteq> 0)"

text \<open>Decimal rendering of a number inside a string concatenation or template.\<close>

fun show_nat :: "nat \<Rightarrow> string" where
  "show_nat n =
     (if n < 10 then [char_of (48 + n)]
      else show_nat (n div 10) @ [char_of (48 + n mod 10)])"

definition show_int :: "int \<Rightarrow> string" where
  "show_int i = (if i < 0 then CHR ''-'' # show_nat (nat (- i)) else show_nat (nat i))"

subsection \<open>Configuration\<close>

text \<open>The variables of \<open>process.env\<close> that the scripts read.\<close>

record environment =
  env_USERNAME :: "string option"
  env_username :: "string option"
  env_PASSWORD :: "string option"
  env_password :: "string option"
  env_SHARED_SECRET :: "string option"
  env_shared :: "string option"
  env_AUTHCODE :: "string option"
  env_SENTRY :: "string option"

text \<open>The module-level constants (lines 7-11 and 104-107).\<close>

definition USERNAME :: "environment \<Rightarrow> string option" where
  "USERNAME env = js_or (env_USERNAME env) (env_username env)"

definition PASSWORD :: "environment \<Rightarrow> string option" where
  "PASSWORD env = js_or (env_PASSWORD env) (env_password env)"

definition SHARED_SECRET :: "environment \<Rightarrow> string option" where
  "SHARED_SECRET env = js_or (env_SHARED_SECRET env) (env_shared env)"

definition AUTHCODE :: "environment \<Rightarrow> string option" where
  "AUTHCODE env = env_AUTHCODE env"

definition SENTRY_ENV :: "environment \<Rightarrow> string option" where
  "SENTRY_ENV env = env_SENTRY env"

definition MAX_RETRIES :: int where
  "MAX_RETRIES = 6"

text \<open>
  The library functions the scripts call and do not define: \<open>steamTotp.generateAuthCode\<close>
  (which reads the clock, and throws on a malformed secret: \<open>Inl\<close> carries the message of
  the error), \<open>Buffer.from(_, 'base64')\<close> and \<open>Buffer.toString('base64')\<close>.  They are
  parameters of the model.
\<close>

record library =
  generateAuthCode :: "string \<Rightarrow> nat \<Rightarrow> string + string"
  fromBase64 :: "string \<Rightarrow> buffer"
  toBase64 :: "buffer \<Rightarrow> string"

subsection \<open>Effects and state\<close>

record logOnOptions =
  accountName :: "string option"
  password :: "string option"
  sentry :: "buffer option"
  twoFactorCode :: "string option"

datatype level = Log | Warn | Error

datatype logarg = Str string | Num int | Bool bool | Undefined | Obj steam_obj

datatype effect =
    Console level "logarg list"
  | WriteFileSync buffer
  | GenerateAuthCode string
  | LogOn logOnOptions
  | LogOff
  | SetTimeout int
  | SetPersona nat
  | GamesPlayed "nat list"
  | Callback string
  | Uncaught steam_obj
  | Exit nat

text \<open>
  The state of the process and of the part of the world it touches.  \<open>sentry_file\<close> is
  the content of \<open>./sentry\<close> (\<open>None\<close>: no such file).  \<open>write_fault\<close>, \<open>read_fault\<close> and
  \<open>logOn_fault\<close> say whether the next \<open>fs.writeFileSync\<close>, \<open>fs.readFileSync\<close> or
  \<open>client.logOn\<close> throws, and what.  \<open>timers\<close> counts the pending \<open>setTimeout\<close>
  callbacks, all of which are \<open>attemptLogin\<close>.
\<close>

record state =
  retryCount :: int
  timers :: nat
  trace :: "effect list"
  exited :: "nat option"
  now :: nat
  sentry_file :: "buffer option"
  write_fault :: "string option"
  read_fault :: "string option"
  logOn_fault :: "steam_obj option"

definition emit :: "effect \<Rightarrow> state \<Rightarrow> state" where
  "emit e s = s\<lparr>trace := trace s @ [e]\<rparr>"

definition console :: "level \<Rightarrow> logarg list \<Rightarrow> state \<Rightarrow> state" where
  "console l args s = emit (Console l args) s"

definition process_exit :: "nat \<Rightarrow> state \<Rightarrow> state" where
  "process_exit n s = (emit (Exit n) s)\<lparr>exited := Some n\<rparr>"

definition existsSync :: "state \<Rightarrow> bool" where
  "existsSync s = (sentry_file s \<noteq> None)"

text \<open>
  \<open>fs.writeFileSync(SENTRY_PATH, data)\<close>: the call is recorded; it either throws
  (\<open>Inl\<close> with the message) or replaces the content of the file.
\<close>

definition writeFileSync :: "buffer \<Rightarrow> state \<Rightarrow> string \<times> state + state" where
  "writeFileSync data s =
     (let s1 = emit (WriteFileSync data) s in
      case write_fault s1 of
        Some m \<Rightarrow> Inl (m, s1)
      | None \<Rightarrow> Inr (s1\<lparr>sentry_file := Some data\<rparr>))"

text \<open>\<open>fs.readFileSync(SENTRY_PATH)\<close>: throws when the file is missing or unreadable.\<close>

definition readFileSync :: "state \<Rightarrow> string + buffer" where
  "readFileSync s =
     (case read_fault s of
        Some m \<Rightarrow> Inl m
      | None \<Rightarrow> (case sentry_file s of None \<Rightarrow> Inl ''ENOENT'' | Some b \<Rightarrow> Inr b))"

text \<open>The timeouts set so far, the calls of the code generator and of \<open>client.logOn\<close>.\<close>

fun delays :: "effect list \<Rightarrow> int list" where
  "delays [] = []"
| "delays (SetTimeout d # es) = d # delays es"
| "delays (_ # es) = delays es"

fun generator_calls :: "effect list \<Rightarrow> string list" where
  "generator_calls [] = []"
| "generator_calls (GenerateAuthCode k # es) = k # generator_calls es"
| "generator_calls (_ # es) = generator_calls es"

fun logOn_calls :: "effect list \<Rightarrow> logOnOptions list" where
  "logOn_calls [] = []"
| "logOn_calls (LogOn opts # es) = opts # logOn_calls es"
| "logOn_calls (_ # es) = logOn_calls es"

fun writes :: "effect list \<Rightarrow> buffer list" where
  "writes [] = []"
| "writes (WriteFileSync b # es) = b # writes es"
| "writes (_ # es) = writes es"

subsection \<open>The retry scheduler (lines 198-237)\<close>

text \<open>
  \<open>Math.round(delay / 1000)\<close> on a non-negative integer \<open>delay\<close> is
  \<open>(delay + 500) div 1000\<close>; \<open>Math.pow(2, k)\<close> is exact for the small \<open>k\<close> that occur.
\<close>

definition scheduleRetry :: "int option \<Rightarrow> state \<Rightarrow> state" where
  "scheduleRetry eresultCode s =
     (let s1 = s\<lparr>retryCount := retryCount s + 1\<rparr> in
      if retryCount s1 > MAX_RETRIES then
        process_exit 1 (console Error [Str ''Max retries exceeded. Aborting.''] s1)
      else
        let base = (if eresultCode = Some 84 then 60000 else 30000);
            delay = base * 2 ^ nat (max 0 (retryCount s1 - 1));
            s2 = console Log
                   [Str (''Retrying in '' @ show_int ((delay + 500) div 1000) @ ''s (retry ''
                         @ show_int (retryCount s1) @ ''/'' @ show_int MAX_RETRIES @ '')...'')] s1;
            s3 = emit LogOff s2
        in (emit (SetTimeout delay) s3)\<lparr>timers := timers s3 + 1\<rparr>)"

subsection \<open>The login option builder (lines 129-156)\<close>

text \<open>The string held by a truthy value, and a value as an argument of \<open>console.log\<close>.\<close>

definition str_of :: "string option \<Rightarrow> string" where
  "str_of v = (case v of None \<Rightarrow> ''undefined'' | Some t \<Rightarrow> t)"

definition arg :: "string option \<Rightarrow> logarg" where
  "arg v = (case v of None \<Rightarrow> Undefined | Some t \<Rightarrow> Str t)"

definition buildLogOnOptions :: "library \<Rightarrow> environment \<Rightarrow> state \<Rightarrow> logOnOptions \<times> state" where
  "buildLogOnOptions lib env s =
     (let opts = \<lparr>accountName = USERNAME env, password = PASSWORD env,
                  sentry = None, twoFactorCode = None\<rparr>;
          (opts1, s1) =
            (if existsSync s then
               (case readFileSync s of
                  Inr b \<Rightarrow> (opts\<lparr>sentry := Some b\<rparr>,
                            console Log [Str ''Using existing sentry file for login.''] s)
                | Inl m \<Rightarrow> (opts, console Warn [Str ''Failed to read sentry file:'', Str m] s))
             else (opts, s))
      in if truthy (SHARED_SECRET env) then
           (let s2 = emit (GenerateAuthCode (str_of (SHARED_SECRET env))) s1 in
            case generateAuthCode lib (str_of (SHARED_SECRET env)) (now s2) of
              Inr code \<Rightarrow> (opts1\<lparr>twoFactorCode := Some code\<rparr>,
                           console Log [Str ''Using mobile 2FA (SHARED_SECRET) for login.''] s2)
            | Inl m \<Rightarrow> (opts1, console Warn
                                  [Str ''Failed to generate 2FA code from SHARED_SECRET:'', Str m] s2))
         else (opts1, s1))"

subsection \<open>The login attempt (lines 201-219)\<close>

text \<open>
  \<open>client.logOn(opts)\<close> is recorded as a call; when it throws, the thrown object goes to
  the retry scheduler.
\<close>

definition attemptLogin :: "library \<Rightarrow> environment \<Rightarrow> state \<Rightarrow> state" where
  "attemptLogin lib env s =
     (let (opts, s1) = buildLogOnOptions lib env s in
      if \<not> truthy (SHARED_SECRET env) \<and> \<not> existsSync s1 then
        process_exit 1
          (console Error [Str ''Set SHARED_SECRET env var (preferred) or provide a SENTRY env var with a base64 saved sentry blob.'']
            (console Error [Str ''No SHARED_SECRET and no SENTRY file present. This environment will likely require an email code.''] s1))
      else
        let s2 = console Log [Str (''Attempting login (attempt #'' @ show_int (retryCount s1 + 1) @ '')'')] s1;
            s3 = emit (LogOn opts) s2
        in case logOn_fault s3 of
             None \<Rightarrow> s3
           | Some e \<Rightarrow>
               scheduleRetry (eresult e)
                 (console Error [Str ''Immediate logOn error:'',
                                 (if truthy (message e) then Str (str_of (message e)) else Obj e)] s3))"

subsection \<open>The event handlers of the second script\<close>

text \<open>\<open>client.on('sentry')\<close>, lines 159-168.\<close>

definition on_sentry :: "library \<Rightarrow> buffer \<Rightarrow> state \<Rightarrow> state" where
  "on_sentry lib sentry_blob s =
     (case writeFileSync sentry_blob s of
        Inr s1 \<Rightarrow>
          console Log [Str (toBase64 lib sentry_blob)]
            (console Log [Str ''Store this value in your SENTRY env var (base64) to avoid future email codes:'']
              (console Log [Str ''Saved sentry file locally.''] s1))
      | Inl (m, s1) \<Rightarrow> console Warn [Str ''Failed to save sentry file:'', Str m] s1)"

text \<open>\<open>client.on('steamGuard')\<close>, lines 172-177; the callback is never called.\<close>

definition on_steamGuard :: "string option \<Rightarrow> bool \<Rightarrow> state \<Rightarrow> state" where
  "on_steamGuard domain lastCodeWrong s =
     process_exit 1
       (console Error [Str ''Solution: enable mobile auth and set SHARED_SECRET, or set SENTRY after a successful desktop login.'']
         (console Error [Str ''This deployment does NOT accept interactive codes. Aborting to avoid rate limits.'']
           (console Error [Str ''steamGuard requested an email code for domain:'', arg domain] s)))"

text \<open>\<open>client.on('error')\<close>, lines 179-187.\<close>

definition on_error :: "steam_obj option \<Rightarrow> state \<Rightarrow> state" where
  "on_error err s =
     (case err of
        None \<Rightarrow> console Error [Str ''Steam error:'', Undefined] s
      | Some e \<Rightarrow>
          if truthy_num (eresult e) then
            console Error [Str ''eresult code:'', Num (case eresult e of Some n \<Rightarrow> n | None \<Rightarrow> 0)]
              (console Error [Str ''Steam error:'',
                              (if truthy (message e) then Str (str_of (message e)) else Obj e)] s)
          else
            console Error [Str ''Steam error:'',
                           (if truthy (message e) then Str (str_of (message e)) else Obj e)] s)"

text \<open>\<open>client.on('loggedOn')\<close>, lines 190-195.\<close>

definition games :: "nat list" where
  "games = [730, 714010, 440, 3419430, 291550, 1938090, 1905180, 1275350, 2021910,
            1665460, 666220, 2281730, 578080]"

definition on_loggedOn :: "string \<Rightarrow> state \<Rightarrow> state" where
  "on_loggedOn steamID s =
     emit (GamesPlayed games)
       (emit (SetPersona 7)
         (console Log [Str (steamID @ '' - Successfully logged on'')] s))"

text \<open>\<open>client.on('logOnResponse')\<close>, lines 240-252.\<close>

definition on_logOnResponse :: "steam_obj option \<Rightarrow> state \<Rightarrow> state" where
  "on_logOnResponse response s =
     (case response of
        None \<Rightarrow> s
      | Some r \<Rightarrow>
          if truthy_num (eresult r) \<and> eresult r \<noteq> Some 1 then
            (let s1 = console Warn [Str ''LogOnResponse eresult:'',
                                    Num (case eresult r of Some n \<Rightarrow> n | None \<Rightarrow> 0)] s
             in if eresult r = Some 84 then scheduleRetry (eresult r) s1
                else scheduleRetry (eresult r) s1)
          else s)"

text \<open>\<open>process.on('unhandledRejection')\<close>, lines 255-257.\<close>

definition on_unhandledRejection :: "logarg \<Rightarrow> state \<Rightarrow> state" where
  "on_unhandledRejection reason s = console Error [Str ''Unhandled promise rejection:'', reason] s"

subsection \<open>Start-up\<close>

text \<open>The process variables as the module initialises them, over a given world.\<close>

definition boot :: "state \<Rightarrow> state" where
  "boot w = w\<lparr>retryCount := 0, timers := 0, trace := [], exited := None\<rparr>"

text \<open>Lines 117-124, and word for word lines 21-28 of the first script.\<close>

definition sentry_from_env :: "library \<Rightarrow> environment \<Rightarrow> state \<Rightarrow> state" where
  "sentry_from_env lib env s =
     (if truthy (SENTRY_ENV env) \<and> \<not> existsSync s then
        (case writeFileSync (fromBase64 lib (str_of (SENTRY_ENV env))) s of
           Inr s1 \<Rightarrow> console Log [Str ''Wrote SENTRY file from SENTRY env var.''] s1
         | Inl (m, s1) \<Rightarrow> console Warn [Str ''Failed to write SENTRY from env:'', Str m] s1)
      else s)"

text \<open>The top level of the second script: lines 111-124 and the call of line 260.\<close>

definition script :: "library \<Rightarrow> environment \<Rightarrow> state \<Rightarrow> state" where
  "script lib env w =
     (let s = boot w in
      if \<not> truthy (USERNAME env) \<or> \<not> truthy (PASSWORD env) then
        process_exit 1
          (console Error [Str ''ERROR: USERNAME and PASSWORD environment variables are required.''] s)
      else attemptLogin lib env (sentry_from_env lib env s))"

subsection \<open>The event loop of the second script\<close>

text \<open>
  What can happen after start-up: a timer set by \<open>scheduleRetry\<close> fires, the client
  emits one of its events, or the world changes (the clock, and whether the file
  system and \<open>client.logOn\<close> fail).  Nothing is handled once the process has exited.
\<close>

datatype event =
    TimerFired
  | LogOnResponse "steam_obj option"
  | SteamGuard "string option" bool
  | Sentry buffer
  | ErrorEvent "steam_obj option"
  | LoggedOn string
  | UnhandledRejection logarg
  | World nat "string option" "string option" "steam_obj option"

fun dispatch :: "library \<Rightarrow> environment \<Rightarrow> event \<Rightarrow> state \<Rightarrow> state" where
  "dispatch lib env TimerFired s =
     (if timers s = 0 then s else attemptLogin lib env (s\<lparr>timers := timers s - 1\<rparr>))"
| "dispatch lib env (LogOnResponse response) s = on_logOnResponse response s"
| "dispatch lib env (SteamGuard domain lastCodeWrong) s = on_steamGuard domain lastCodeWrong s"
| "dispatch lib env (Sentry b) s = on_sentry lib b s"
| "dispatch lib env (ErrorEvent err) s = on_error err s"
| "dispatch lib env (LoggedOn steamID) s = on_loggedOn steamID s"
| "dispatch lib env (UnhandledRejection reason) s = on_unhandledRejection reason s"
| "dispatch lib env (World t wfault rfault lfault) s =
     s\<lparr>now := t, write_fault := wfault, read_fault := rfault, logOn_fault := lfault\<rparr>"

definition step :: "library \<Rightarrow> environment \<Rightarrow> state \<Rightarrow> event \<Rightarrow> state" where
  "step lib env s ev = (if exited s \<noteq> None then s else dispatch lib env ev s)"

definition run :: "library \<Rightarrow> environment \<Rightarrow> state \<Rightarrow> event list \<Rightarrow> state" where
  "run lib env w evs = foldl (step lib env) (script lib env w) evs"

text \<open>A sequence of failures handed to the retry scheduler one after the other.\<close>

definition failures :: "int option list \<Rightarrow> state \<Rightarrow> state" where
  "failures codes s =
     foldl (\<lambda>s' code. if exited s' \<noteq> None then s' else scheduleRetry code s') s codes"

subsection \<open>The first script (lines 1-93)\<close>

text \<open>
  The object \<open>logOnOptions\<close> is built once, at module level (lines 32-54): first the
  one-time code, then the sentry file.  \<open>client.logOn\<close> is called once (line 93) outside
  any \<open>try\<close>: an exception there ends the process, which Node reports with status 1.
\<close>

definition logOnOptions_v1 :: "library \<Rightarrow> environment \<Rightarrow> state \<Rightarrow> logOnOptions \<times> state" where
  "logOnOptions_v1 lib env s =
     (let logOnOptions = \<lparr>accountName = USERNAME env, password = PASSWORD env,
                          sentry = None, twoFactorCode = None\<rparr>;
          (opts1, s1) =
            (if truthy (SHARED_SECRET env) then
               (let s' = emit (GenerateAuthCode (str_of (SHARED_SECRET env))) s in
                case generateAuthCode lib (str_of (SHARED_SECRET env)) (now s') of
                  Inr code \<Rightarrow> (logOnOptions\<lparr>twoFactorCode := Some code\<rparr>, s')
                | Inl m \<Rightarrow> (logOnOptions,
                            console Error [Str ''Invalid SHARED_SECRET (cannot generate 2FA code):'', Str m] s'))
             else (logOnOptions, s))
      in if existsSync s1 then
           (case readFileSync s1 of
              Inr b \<Rightarrow> (opts1\<lparr>sentry := Some b\<rparr>,
                        console Log [Str ''Using existing sentry file for login.''] s1)
            | Inl m \<Rightarrow> (opts1, console Warn [Str ''Failed to read existing sentry file:'', Str m] s1))
         else (opts1, s1))"

definition script_v1 :: "library \<Rightarrow> environment \<Rightarrow> state \<Rightarrow> state" where
  "script_v1 lib env w =
     (let s = boot w in
      if \<not> truthy (USERNAME env) \<or> \<not> truthy (PASSWORD env) then
        process_exit 1
          (console Error [Str ''ERROR: USERNAME and PASSWORD environment variables are required.''] s)
      else
        let (opts, s1) = logOnOptions_v1 lib env (sentry_from_env lib env s);
            s2 = emit (LogOn opts) s1
        in case logOn_fault s2 of
             None \<Rightarrow> s2
           | Some e \<Rightarrow> (emit (Uncaught e) s2)\<lparr>exited := Some 1\<rparr>)"

text \<open>
  \<open>client.on('steamGuard')\<close> of the first script, lines 57-68.  The dash of the last
  message is written as its three bytes in UTF-8.
\<close>

definition on_steamGuard_v1 :: "environment \<Rightarrow> string option \<Rightarrow> bool \<Rightarrow> state \<Rightarrow> state" where
  "on_steamGuard_v1 env domain lastCodeWrong s =
     (let s1 = console Log [Str ''steamGuard event. Domain:'', arg domain,
                            Str ''lastCodeWrong:'', Bool lastCodeWrong] s
      in if truthy (AUTHCODE env) then
           emit (Callback (str_of (AUTHCODE env)))
             (console Log [Str ''Using AUTHCODE from env to respond to Steam Guard (email) challenge.''] s1)
         else
           process_exit 1
             (console Error [Str (''After a successful login you will get a sentry blob in the logs ''
                                  @ [CHR 0xE2, CHR 0x80, CHR 0x94]
                                  @ '' save that as the SENTRY env var for future logins.'')]
               (console Error [Str ''If you received an email code, set it in the AUTHCODE env var and redeploy ONCE.'']
                 (console Error [Str ''No AUTHCODE env var set. This environment cannot accept interactive Steam Guard input.''] s1))))"

subsection \<open>The invariant of the retry counter\<close>

text \<open>
  At most six timeouts have been set, and while the process runs \<open>retryCount\<close> is the
  number of timeouts set so far.
\<close>

definition retries_inv :: "state \<Rightarrow> bool" where
  "retries_inv s =
     (length (delays (trace s)) \<le> 6 \<and>
      (exited s = None \<longrightarrow> retryCount s = int (length (delays (trace s)))))"

subsection \<open>Example inputs\<close>

text \<open>
  A library whose code generator rejects the secret \<open>bad\<close> and otherwise answers with a
  code that changes every 30 seconds, an environment with account name, password and
  shared secret, and a world with no sentry file and no faults.
\<close>

definition lib_ex :: library where
  "lib_ex = \<lparr>generateAuthCode =
               (\<lambda>k t. if k = ''bad'' then Inl ''Invalid shared secret''
                      else Inr (if even (t div 30000) then ''2F9J5'' else ''7XPQC'')),
             fromBase64 = map of_char,
             toBase64 = map (\<lambda>b. char_of (unat b))\<rparr>"

definition env_ex :: environment where
  "env_ex = \<lparr>env_USERNAME = Some ''acct'', env_username = None,
             env_PASSWORD = None, env_password = Some ''pw'',
             env_SHARED_SECRET = Some ''SECRET'', env_shared = None,
             env_AUTHCODE = None, env_SENTRY = None\<rparr>"

definition w_ex :: state where
  "w_ex = \<lparr>retryCount = 0, timers = 0, trace = [], exited = None, now = 0,
           sentry_file = None, write_fault = None, read_fault = None, logOn_fault = None\<rparr>"

section \<open>Properties\<close>

subsection \<open>Effects and their projections\<close>

declare show_nat.simps [simp del]

lemmas effect_defs = emit_def console_def process_exit_def

lemma delays_append: "delays (xs @ ys) = delays xs @ delays ys"
  by (induction xs rule: delays.induct) simp_all

lemma writes_append: "writes (xs @ ys) = writes xs @ writes ys"
  by (induction xs rule: writes.induct) simp_all

lemma generator_calls_append: "generator_calls (xs @ ys) = generator_calls xs @ generator_calls ys"
  by (induction xs rule: generator_calls.induct) simp_all

lemma logOn_calls_append: "logOn_calls (xs @ ys) = logOn_calls xs @ logOn_calls ys"
  by (induction xs rule: logOn_calls.induct) simp_all

lemmas filter_append = delays_append writes_append generator_calls_append logOn_calls_append

lemma scheduleRetry_below:
  assumes "0 \<le> retryCount s" "retryCount s < 6"
  shows "retryCount (scheduleRetry code s) = retryCount s + 1"
    and "exited (scheduleRetry code s) = exited s"
    and "delays (trace (scheduleRetry code s)) =
           delays (trace s) @ [(if code = Some 84 then 60000 else 30000) * 2 ^ nat (retryCount s)]"
  using assms
  by (simp_all add: scheduleRetry_def MAX_RETRIES_def Let_def effect_defs filter_append)

lemma scheduleRetry_above:
  assumes "6 \<le> retryCount s"
  shows "exited (scheduleRetry code s) = Some 1"
    and "trace (scheduleRetry code s) =
           trace s @ [Console Error [Str ''Max retries exceeded. Aborting.''], Exit 1]"
    and "timers (scheduleRetry code s) = timers s"
  using assms
  by (simp_all add: scheduleRetry_def MAX_RETRIES_def Let_def effect_defs)

lemma scheduleRetry_frame:
  "sentry_file (scheduleRetry code s) = sentry_file s"
  "writes (trace (scheduleRetry code s)) = writes (trace s)"
  "generator_calls (trace (scheduleRetry code s)) = generator_calls (trace s)"
  "logOn_calls (trace (scheduleRetry code s)) = logOn_calls (trace s)"
  by (simp_all add: scheduleRetry_def Let_def effect_defs filter_append)

lemma failures_exited: "exited s \<noteq> None \<Longrightarrow> failures codes s = s"
  by (induction codes) (simp_all add: failures_def)

lemma failures_Cons:
  "exited s = None \<Longrightarrow> failures (code # codes) s = failures codes (scheduleRetry code s)"
  by (simp add: failures_def)

lemma failures_delays:
  "exited s = None \<Longrightarrow> retryCount s = int k \<Longrightarrow>
   delays (trace (failures codes s)) =
     delays (trace s) @
     map (\<lambda>(n, code). (if code = Some 84 then 60000 else 30000) * 2 ^ n) (zip [k..<6] codes)"
proof (induction codes arbitrary: s k)
  case Nil
  then show ?case by (simp add: failures_def)
next
  case (Cons code codes)
  show ?case
  proof (cases "k < 6")
    case True
    let ?s = "scheduleRetry code s"
    from True Cons.prems have b: "0 \<le> retryCount s" "retryCount s < 6" by simp_all
    have "exited ?s = None" "retryCount ?s = int (Suc k)"
      using scheduleRetry_below(1,2)[OF b] Cons.prems by simp_all
    from Cons.IH[OF this] scheduleRetry_below(3)[OF b] Cons.prems True
    show ?thesis by (simp add: failures_Cons upt_conv_Cons)
  next
    case False
    with Cons.prems have "6 \<le> retryCount s" by simp
    from scheduleRetry_above(1,2)[OF this, of code] Cons.prems False
    show ?thesis by (simp add: failures_Cons failures_exited filter_append)
  qed
qed

lemma build_frame:
  "retryCount (snd (buildLogOnOptions lib env s)) = retryCount s"
  "timers (snd (buildLogOnOptions lib env s)) = timers s"
  "exited (snd (buildLogOnOptions lib env s)) = exited s"
  "now (snd (buildLogOnOptions lib env s)) = now s"
  "sentry_file (snd (buildLogOnOptions lib env s)) = sentry_file s"
  "write_fault (snd (buildLogOnOptions lib env s)) = write_fault s"
  "read_fault (snd (buildLogOnOptions lib env s)) = read_fault s"
  "logOn_fault (snd (buildLogOnOptions lib env s)) = logOn_fault s"
  "delays (trace (snd (buildLogOnOptions lib env s))) = delays (trace s)"
  "writes (trace (snd (buildLogOnOptions lib env s))) = writes (trace s)"
  "logOn_calls (trace (snd (buildLogOnOptions lib env s))) = logOn_calls (trace s)"
  by (simp_all add: buildLogOnOptions_def Let_def effect_defs filter_append existsSync_def
        split: sum.splits prod.splits)

lemma emit_fields:
  "retryCount (emit e s) = retryCount s"
  "timers (emit e s) = timers s"
  "exited (emit e s) = exited s"
  "now (emit e s) = now s"
  "sentry_file (emit e s) = sentry_file s"
  "write_fault (emit e s) = write_fault s"
  "read_fault (emit e s) = read_fault s"
  "logOn_fault (emit e s) = logOn_fault s"
  "trace (emit e s) = trace s @ [e]"
  by (simp_all add: emit_def)

lemma process_exit_fields:
  "retryCount (process_exit n s) = retryCount s"
  "timers (process_exit n s) = timers s"
  "exited (process_exit n s) = Some n"
  "sentry_file (process_exit n s) = sentry_file s"
  "trace (process_exit n s) = trace s @ [Exit n]"
  by (simp_all add: process_exit_def emit_def)

lemma retries_inv_emit: "delays [e] = [] \<Longrightarrow> retries_inv (emit e s) = retries_inv s"
  by (simp add: retries_inv_def emit_fields delays_append)

lemma retries_inv_console: "retries_inv (console l args s) = retries_inv s"
  by (simp add: console_def retries_inv_emit)

lemma retries_inv_exit: "retries_inv s \<Longrightarrow> retries_inv (process_exit n s)"
  by (simp add: retries_inv_def process_exit_fields delays_append)

lemma retries_inv_build: "retries_inv (snd (buildLogOnOptions lib env s)) = retries_inv s"
  by (simp add: retries_inv_def build_frame)

lemma exited_console: "exited (console l args s) = exited s"
  by (simp add: console_def emit_fields)

lemma logOn_fault_console: "logOn_fault (console l args s) = logOn_fault s"
  by (simp add: console_def emit_fields)

lemma scheduleRetry_inv:
  assumes "retries_inv s" "exited s = None"
  shows "retries_inv (scheduleRetry code s)"
proof (cases "retryCount s < 6")
  case True
  from assms have eq: "retryCount s = int (length (delays (trace s)))"
    by (simp add: retries_inv_def)
  with True have b: "0 \<le> retryCount s" "retryCount s < 6" by simp_all
  from True eq have "length (delays (trace s)) < 6" by simp
  with scheduleRetry_below[OF b, of code] eq show ?thesis
    by (simp add: retries_inv_def)
next
  case False
  then have "6 \<le> retryCount s" by simp
  from scheduleRetry_above(1,2)[OF this, of code] assms show ?thesis
    by (simp add: retries_inv_def filter_append)
qed

lemma attemptLogin_inv:
  assumes "retries_inv s" "exited s = None"
  shows "retries_inv (attemptLogin lib env s)"
  using assms
  by (simp add: attemptLogin_def case_prod_beta Let_def retries_inv_exit retries_inv_console
        retries_inv_emit retries_inv_build scheduleRetry_inv exited_console emit_fields
        build_frame split: option.splits)

lemma attemptLogin_frame:
  "sentry_file (attemptLogin lib env s) = sentry_file s"
  "writes (trace (attemptLogin lib env s)) = writes (trace s)"
  by (simp_all add: attemptLogin_def case_prod_beta Let_def effect_defs filter_append
        scheduleRetry_frame build_frame split: option.splits)

lemma on_logOnResponse_inv:
  assumes "retries_inv s" "exited s = None"
  shows "retries_inv (on_logOnResponse response s)"
  using assms
  by (simp add: on_logOnResponse_def Let_def retries_inv_console scheduleRetry_inv
        exited_console split: option.splits)

lemma on_sentry_inv: "retries_inv s \<Longrightarrow> retries_inv (on_sentry lib b s)"
  by (simp add: on_sentry_def writeFileSync_def Let_def retries_inv_def effect_defs
        filter_append split: option.splits)

lemma on_error_inv: "retries_inv s \<Longrightarrow> retries_inv (on_error err s)"
  by (simp add: on_error_def retries_inv_console split: option.splits)

lemma dispatch_inv:
  assumes "retries_inv s" "exited s = None"
  shows "retries_inv (dispatch lib env ev s)"
proof (cases ev)
  case TimerFired
  have "retries_inv (s\<lparr>timers := timers s - 1\<rparr>)"
    using assms(1) by (simp add: retries_inv_def)
  from attemptLogin_inv[OF this] assms TimerFired show ?thesis by simp
next
  case (LogOnResponse response)
  with assms show ?thesis by (simp add: on_logOnResponse_inv)
next
  case (SteamGuard domain lastCodeWrong)
  with assms show ?thesis
    by (simp add: on_steamGuard_def retries_inv_exit retries_inv_console)
next
  case (Sentry b)
  with assms show ?thesis by (simp add: on_sentry_inv)
next
  case (ErrorEvent err)
  with assms show ?thesis by (simp add: on_error_inv)
next
  case (LoggedOn steamID)
  with assms show ?thesis
    by (simp add: on_loggedOn_def retries_inv_emit retries_inv_console)
next
  case (UnhandledRejection reason)
  with assms show ?thesis by (simp add: on_unhandledRejection_def retries_inv_console)
next
  case (World t wfault rfault lfault)
  with assms show ?thesis by (simp add: retries_inv_def)
qed

lemma step_inv: "retries_inv s \<Longrightarrow> retries_inv (step lib env s ev)"
  by (simp add: step_def dispatch_inv)

lemma foldl_step_inv: "retries_inv s \<Longrightarrow> retries_inv (foldl (step lib env) s evs)"
  by (induction evs arbitrary: s) (simp_all add: step_inv)

lemma boot_inv: "retries_inv (boot w)"
  by (simp add: retries_inv_def boot_def)

lemma sentry_from_env_inv:
  "retries_inv (sentry_from_env lib env s) = retries_inv s"
  "exited (sentry_from_env lib env s) = exited s"
  by (simp_all add: sentry_from_env_def writeFileSync_def Let_def retries_inv_def effect_defs
        filter_append split: option.splits)

lemma script_inv: "retries_inv (script lib env w)"
  by (simp add: script_def Let_def retries_inv_exit retries_inv_console boot_inv
        attemptLogin_inv sentry_from_env_inv boot_def[of w, THEN arg_cong, of exited])

lemma run_inv: "retries_inv (run lib env w evs)"
  by (simp add: run_def foldl_step_inv script_inv)

lemmas ex_defs = lib_ex_def env_ex_def w_ex_def
lemmas env_defs = USERNAME_def PASSWORD_def SHARED_SECRET_def AUTHCODE_def SENTRY_ENV_def
  js_or_def truthy_def str_of_def

lemma boot_fields:
  "retryCount (boot w) = 0" "timers (boot w) = 0" "trace (boot w) = []" "exited (boot w) = None"
  "now (boot w) = now w" "sentry_file (boot w) = sentry_file w"
  "write_fault (boot w) = write_fault w" "read_fault (boot w) = read_fault w"
  "logOn_fault (boot w) = logOn_fault w"
  by (simp_all add: boot_def)

lemma failures_logOn_calls: "logOn_calls (trace (failures codes s)) = logOn_calls (trace s)"
proof (induction codes arbitrary: s)
  case Nil
  show ?case by (simp add: failures_def)
next
  case (Cons code codes)
  show ?case
  proof (cases "exited s")
    case None
    with Cons.IH[of "scheduleRetry code s"] show ?thesis
      by (simp add: failures_Cons scheduleRetry_frame)
  next
    case (Some n)
    then show ?thesis by (simp add: failures_exited)
  qed
qed

lemma failures_exit:
  "exited s = None \<Longrightarrow> retryCount s = int k \<Longrightarrow> k \<le> 6 \<Longrightarrow> 7 \<le> k + length codes \<Longrightarrow>
   exited (failures codes s) = Some 1"
proof (induction codes arbitrary: s k)
  case Nil
  then show ?case by simp
next
  case (Cons code codes)
  show ?case
  proof (cases "k < 6")
    case True
    with Cons.prems have b: "0 \<le> retryCount s" "retryCount s < 6" by simp_all
    have "exited (scheduleRetry code s) = None" "retryCount (scheduleRetry code s) = int (Suc k)"
      using scheduleRetry_below(1,2)[OF b] Cons.prems by simp_all
    from Cons.IH[OF this] Cons.prems True show ?thesis by (simp add: failures_Cons)
  next
    case False
    with Cons.prems have "6 \<le> retryCount s" by simp
    from scheduleRetry_above(1)[OF this, of code] Cons.prems show ?thesis
      by (simp add: failures_Cons failures_exited)
  qed
qed

lemma attemptLogin_running:
  assumes "truthy (SHARED_SECRET env) \<or> sentry_file s \<noteq> None" "logOn_fault s = None"
  shows "exited (attemptLogin lib env s) = exited s"
  using assms
  by (auto simp: attemptLogin_def case_prod_beta Let_def existsSync_def build_frame
        exited_console logOn_fault_console emit_fields)

lemma script_running:
  assumes "truthy (USERNAME env)" "truthy (PASSWORD env)" "truthy (SHARED_SECRET env)"
    "logOn_fault w = None"
  shows "exited (script lib env w) = None"
proof -
  have "logOn_fault (sentry_from_env lib env (boot w)) = None"
    using assms(4)
    by (simp add: sentry_from_env_def writeFileSync_def Let_def effect_defs boot_fields
          split: option.splits)
  with assms show ?thesis
    by (simp add: script_def Let_def attemptLogin_running sentry_from_env_inv boot_fields)
qed

subsection \<open>Backoff delays\<close>

text \<open>
  Claim C1.  The \<open>N\<close>-th failure handed to \<open>scheduleRetry\<close> (\<open>N\<close> from 1 to 6, that is
  \<open>retryCount = N - 1\<close> before the call) sets a timeout of \<open>60000 * 2^(N-1)\<close> ms when the
  code is 84 and of \<open>30000 * 2^(N-1)\<close> ms for every other code, also an absent one.  The
  same holds for the \<open>N\<close>-th element of any sequence of failures after start-up, and the
  sequence 84, 84, 2 sets the timeouts 60000, 120000 and 120000 ms.
\<close>

theorem backoff_delay:
  "(1 \<le> N \<and> N \<le> 6 \<and> retryCount s = int N - 1 \<longrightarrow>
      delays (trace (scheduleRetry code s)) =
        delays (trace s) @ [if code = Some 84 then 60000 * 2 ^ (N - 1) else 30000 * 2 ^ (N - 1)])
   \<and> (1 \<le> N \<and> N \<le> 6 \<and> N \<le> length codes \<longrightarrow>
      delays (trace (failures codes (boot w))) ! (N - 1) =
        (if codes ! (N - 1) = Some 84 then 60000 * 2 ^ (N - 1) else 30000 * 2 ^ (N - 1)))
   \<and> delays (trace (failures [Some 84, Some 84, Some 2] (boot w))) = [60000, 120000, 120000]"
proof (intro conjI impI)
  assume a: "1 \<le> N \<and> N \<le> 6 \<and> retryCount s = int N - 1"
  then have b: "0 \<le> retryCount s" "retryCount s < 6" by simp_all
  from a have "nat (retryCount s) = N - 1" by simp
  with scheduleRetry_below(3)[OF b, of code]
  show "delays (trace (scheduleRetry code s)) =
        delays (trace s) @ [if code = Some 84 then 60000 * 2 ^ (N - 1) else 30000 * 2 ^ (N - 1)]"
    by simp
next
  have seq: "delays (trace (failures cs (boot w))) =
      map (\<lambda>(n, code). (if code = Some 84 then 60000 else 30000) * 2 ^ n) (zip [0..<6] cs)" for cs
    using failures_delays[of "boot w" 0 cs] by (simp add: boot_fields)
  {
    assume a: "1 \<le> N \<and> N \<le> 6 \<and> N \<le> length codes"
    then have "N - 1 < length (zip [0..<6] codes)" by auto
    with a show "delays (trace (failures codes (boot w))) ! (N - 1) =
        (if codes ! (N - 1) = Some 84 then 60000 * 2 ^ (N - 1) else 30000 * 2 ^ (N - 1))"
      by (simp add: seq)
  }
  show "delays (trace (failures [Some 84, Some 84, Some 2] (boot w))) = [60000, 120000, 120000]"
    by (simp add: seq upt_conv_Cons)
qed

theorem backoff_delay_witness:
  "delays (trace (scheduleRetry (Some 84) (w_ex\<lparr>retryCount := 1\<rparr>))) = [120000]
   \<and> delays (trace (failures [Some 84, Some 84, Some 2] (boot w_ex))) ! 2 = 120000"
  using backoff_delay[of 2 "w_ex\<lparr>retryCount := 1\<rparr>" "Some 84" "[]" w_ex]
        backoff_delay[of 3 w_ex None "[Some 84, Some 84, Some 2]" w_ex]
  by (simp add: w_ex_def)

subsection \<open>The retry ceiling\<close>

text \<open>
  Claim C2.  Whatever events follow start-up, at most six timeouts are ever set and the
  retry counter of a running process is between 0 and 6.  A failure that arrives when
  the counter is 6 (the seventh) logs one message and exits with status 1: it sets no
  timeout and calls neither \<open>client.logOff\<close> nor \<open>client.logOn\<close>.  Seven or more
  failures in a row after start-up end in that exit with exactly six timeouts set.
\<close>

theorem retry_ceiling:
  "length (delays (trace (run lib env w evs))) \<le> 6
   \<and> (exited (run lib env w evs) = None \<longrightarrow>
        0 \<le> retryCount (run lib env w evs) \<and> retryCount (run lib env w evs) \<le> 6)
   \<and> (retryCount s = 6 \<longrightarrow>
        exited (scheduleRetry code s) = Some 1 \<and>
        trace (scheduleRetry code s) =
          trace s @ [Console Error [Str ''Max retries exceeded. Aborting.''], Exit 1] \<and>
        timers (scheduleRetry code s) = timers s)
   \<and> (7 \<le> length codes \<longrightarrow>
        exited (failures codes (boot w)) = Some 1 \<and>
        length (delays (trace (failures codes (boot w)))) = 6 \<and>
        logOn_calls (trace (failures codes (boot w))) = [])"
proof (intro conjI impI)
  have inv: "retries_inv (run lib env w evs)" by (rule run_inv)
  then show "length (delays (trace (run lib env w evs))) \<le> 6"
    by (simp add: retries_inv_def)
  {
    assume "exited (run lib env w evs) = None"
    with inv show "0 \<le> retryCount (run lib env w evs)" "retryCount (run lib env w evs) \<le> 6"
      by (simp_all add: retries_inv_def)
  }
  {
    assume "retryCount s = 6"
    then have six: "6 \<le> retryCount s" by simp
    show "exited (scheduleRetry code s) = Some 1"
      "trace (scheduleRetry code s) =
          trace s @ [Console Error [Str ''Max retries exceeded. Aborting.''], Exit 1]"
      "timers (scheduleRetry code s) = timers s"
      by (rule scheduleRetry_above[OF six])+
  }
  {
    assume len: "7 \<le> length codes"
    then show "exited (failures codes (boot w)) = Some 1"
      using failures_exit[of "boot w" 0 codes] by (simp add: boot_fields)
    from len show "length (delays (trace (failures codes (boot w)))) = 6"
      using failures_delays[of "boot w" 0 codes] by (simp add: boot_fields)
    show "logOn_calls (trace (failures codes (boot w))) = []"
      by (simp add: failures_logOn_calls boot_fields)
  }
qed

theorem retry_ceiling_witness:
  "exited (run lib_ex env_ex w_ex []) = None
   \<and> 0 \<le> retryCount (run lib_ex env_ex w_ex []) \<and> retryCount (run lib_ex env_ex w_ex []) \<le> 6
   \<and> exited (scheduleRetry (Some 84) (w_ex\<lparr>retryCount := 6\<rparr>)) = Some 1
   \<and> delays (trace (scheduleRetry (Some 84) (w_ex\<lparr>retryCount := 6\<rparr>))) = []
   \<and> exited (failures [Some 84, Some 84, Some 2, Some 5, Some 5, None, Some 84] (boot w_ex)) = Some 1
   \<and> length (delays (trace (failures [Some 84, Some 84, Some 2, Some 5, Some 5, None, Some 84] (boot w_ex)))) = 6"
proof -
  have running: "exited (run lib_ex env_ex w_ex []) = None"
    by (simp add: run_def script_running env_defs env_ex_def w_ex_def)
  have six: "retryCount (w_ex\<lparr>retryCount := 6\<rparr>) = 6" "trace (w_ex\<lparr>retryCount := 6\<rparr>) = []"
    by (simp_all add: w_ex_def)
  from running six
    retry_ceiling[of lib_ex env_ex w_ex "[]" "w_ex\<lparr>retryCount := 6\<rparr>" "Some 84"
      "[Some 84, Some 84, Some 2, Some 5, Some 5, None, Some 84]"]
  show ?thesis by (simp add: filter_append)
qed

subsection \<open>Facts about the example inputs\<close>

lemma w_ex_fields:
  "retryCount w_ex = 0" "timers w_ex = 0" "trace w_ex = []" "exited w_ex = None" "now w_ex = 0"
  "sentry_file w_ex = None" "write_fault w_ex = None" "read_fault w_ex = None"
  "logOn_fault w_ex = None"
  by (simp_all add: w_ex_def)

lemma env_ex_config:
  "USERNAME env_ex = Some ''acct''" "PASSWORD env_ex = Some ''pw''"
  "SHARED_SECRET env_ex = Some ''SECRET''" "AUTHCODE env_ex = None" "SENTRY_ENV env_ex = None"
  by (simp_all add: env_defs env_ex_def)

lemma truthy_Some: "truthy (Some t) = (t \<noteq> [])" and truthy_None: "truthy None = False"
  by (simp_all add: truthy_def)

subsection \<open>The Steam Guard challenge\<close>

text \<open>
  Claim C3, as the code has it.  In the second script the \<open>steamGuard\<close> handler, in every
  state and under every configuration, logs three diagnostics and exits with status 1;
  it leaves \<open>retryCount\<close> and the pending timers alone and never calls the callback.
  In the first script the handler also never touches a retry, but it exits with status 1
  only when \<open>AUTHCODE\<close> is unset or empty: when \<open>AUTHCODE\<close> is set it answers the
  challenge with it and the process keeps running.
\<close>

theorem steamGuard_aborts:
  "exited (on_steamGuard domain lastCodeWrong s) = Some 1
   \<and> trace (on_steamGuard domain lastCodeWrong s) =
       trace s @
       [Console Error [Str ''steamGuard requested an email code for domain:'', arg domain],
        Console Error [Str ''This deployment does NOT accept interactive codes. Aborting to avoid rate limits.''],
        Console Error [Str ''Solution: enable mobile auth and set SHARED_SECRET, or set SENTRY after a successful desktop login.''],
        Exit 1]
   \<and> retryCount (on_steamGuard domain lastCodeWrong s) = retryCount s
   \<and> timers (on_steamGuard domain lastCodeWrong s) = timers s
   \<and> (exited s = None \<longrightarrow>
        step lib env s (SteamGuard domain lastCodeWrong) = on_steamGuard domain lastCodeWrong s)
   \<and> retryCount (on_steamGuard_v1 env domain lastCodeWrong s) = retryCount s
   \<and> timers (on_steamGuard_v1 env domain lastCodeWrong s) = timers s
   \<and> (\<not> truthy (AUTHCODE env) \<longrightarrow>
        exited (on_steamGuard_v1 env domain lastCodeWrong s) = Some 1 \<and>
        trace (on_steamGuard_v1 env domain lastCodeWrong s) =
          trace s @
          [Console Log [Str ''steamGuard event. Domain:'', arg domain,
                        Str ''lastCodeWrong:'', Bool lastCodeWrong],
           Console Error [Str ''No AUTHCODE env var set. This environment cannot accept interactive Steam Guard input.''],
           Console Error [Str ''If you received an email code, set it in the AUTHCODE env var and redeploy ONCE.''],
           Console Error [Str (''After a successful login you will get a sentry blob in the logs ''
                               @ [CHR 0xE2, CHR 0x80, CHR 0x94]
                               @ '' save that as the SENTRY env var for future logins.'')],
           Exit 1])
   \<and> (truthy (AUTHCODE env) \<longrightarrow>
        exited (on_steamGuard_v1 env domain lastCodeWrong s) = exited s \<and>
        trace (on_steamGuard_v1 env domain lastCodeWrong s) =
          trace s @
          [Console Log [Str ''steamGuard event. Domain:'', arg domain,
                        Str ''lastCodeWrong:'', Bool lastCodeWrong],
           Console Log [Str ''Using AUTHCODE from env to respond to Steam Guard (email) challenge.''],
           Callback (str_of (AUTHCODE env))])"
  by (simp add: on_steamGuard_def on_steamGuard_v1_def step_def Let_def effect_defs)

theorem steamGuard_aborts_witness:
  "exited (on_steamGuard (Some ''gmail.com'') False (w_ex\<lparr>retryCount := 2\<rparr>)) = Some 1
   \<and> retryCount (on_steamGuard (Some ''gmail.com'') False (w_ex\<lparr>retryCount := 2\<rparr>)) = 2
   \<and> step lib_ex env_ex (w_ex\<lparr>retryCount := 2\<rparr>) (SteamGuard (Some ''gmail.com'') False)
       = on_steamGuard (Some ''gmail.com'') False (w_ex\<lparr>retryCount := 2\<rparr>)
   \<and> exited (on_steamGuard_v1 env_ex (Some ''gmail.com'') False w_ex) = Some 1
   \<and> exited (on_steamGuard_v1 (env_ex\<lparr>env_AUTHCODE := Some ''R4T7K''\<rparr>) (Some ''gmail.com'') False w_ex) = None"
  using steamGuard_aborts[of "Some ''gmail.com''" False "w_ex\<lparr>retryCount := 2\<rparr>" lib_ex env_ex]
    steamGuard_aborts[of "Some ''gmail.com''" False w_ex lib_ex env_ex]
    steamGuard_aborts[of "Some ''gmail.com''" False w_ex lib_ex "env_ex\<lparr>env_AUTHCODE := Some ''R4T7K''\<rparr>"]
  by (simp add: env_defs env_ex_def w_ex_def)

theorem steamGuard_answered_counterexample:
  "exited (on_steamGuard_v1 (env_ex\<lparr>env_AUTHCODE := Some ''R4T7K''\<rparr>) (Some ''gmail.com'') False w_ex) = None
   \<and> trace (on_steamGuard_v1 (env_ex\<lparr>env_AUTHCODE := Some ''R4T7K''\<rparr>) (Some ''gmail.com'') False w_ex) =
       [Console Log [Str ''steamGuard event. Domain:'', Str ''gmail.com'',
                     Str ''lastCodeWrong:'', Bool False],
        Console Log [Str ''Using AUTHCODE from env to respond to Steam Guard (email) challenge.''],
        Callback ''R4T7K'']"
  by (simp add: on_steamGuard_v1_def Let_def effect_defs env_defs env_ex_def w_ex_def arg_def)

subsection \<open>Failure notifications\<close>

lemma scheduleRetry_retryCount: "retryCount (scheduleRetry code s) = retryCount s + 1"
  by (simp add: scheduleRetry_def Let_def effect_defs)

text \<open>
  Claim C4, as the code has it.  The failure notification that reaches the retry
  scheduler is a \<open>logOnResponse\<close> whose \<open>eresult\<close> is present, not 0 and not 1: the
  handler logs it and calls \<open>scheduleRetry\<close> once with that code, whatever the code, so
  the counter goes up by one and, below the ceiling, one timeout is set whose base is
  60000 ms for 84 and 30000 ms for every other code.  A response with no \<open>eresult\<close>, or
  with \<open>eresult\<close> 0 or 1, changes nothing.  The handler of the \<open>error\<close> event only logs:
  it never changes the counter, sets no timeout and calls neither \<open>client.logOn\<close> nor
  \<open>process.exit\<close>.
\<close>

theorem logOnResponse_forwards:
  "(eresult r = Some code \<and> code \<noteq> 0 \<and> code \<noteq> 1 \<longrightarrow>
      on_logOnResponse (Some r) s =
        scheduleRetry (Some code) (console Warn [Str ''LogOnResponse eresult:'', Num code] s)
      \<and> retryCount (on_logOnResponse (Some r) s) = retryCount s + 1)
   \<and> (eresult r = Some code \<and> code \<noteq> 0 \<and> code \<noteq> 1 \<and> 0 \<le> retryCount s \<and> retryCount s < 6 \<longrightarrow>
      delays (trace (on_logOnResponse (Some r) s)) =
        delays (trace s) @ [(if code = 84 then 60000 else 30000) * 2 ^ nat (retryCount s)])
   \<and> (eresult r = None \<or> eresult r = Some 0 \<or> eresult r = Some 1 \<longrightarrow>
      on_logOnResponse (Some r) s = s)
   \<and> on_logOnResponse None s = s
   \<and> retryCount (on_error err s) = retryCount s
   \<and> timers (on_error err s) = timers s
   \<and> exited (on_error err s) = exited s
   \<and> delays (trace (on_error err s)) = delays (trace s)
   \<and> logOn_calls (trace (on_error err s)) = logOn_calls (trace s)"
proof -
  have fwd: "on_logOnResponse (Some r) s =
      scheduleRetry (Some code) (console Warn [Str ''LogOnResponse eresult:'', Num code] s)"
    if "eresult r = Some code" "code \<noteq> 0" "code \<noteq> 1"
    using that by (simp add: on_logOnResponse_def Let_def truthy_num_def)
  have dl: "delays (trace (on_logOnResponse (Some r) s)) =
      delays (trace s) @ [(if code = 84 then 60000 else 30000) * 2 ^ nat (retryCount s)]"
    if "eresult r = Some code" "code \<noteq> 0" "code \<noteq> 1" "0 \<le> retryCount s" "retryCount s < 6"
    using scheduleRetry_below(3)[of "console Warn [Str ''LogOnResponse eresult:'', Num code] s"
            "Some code"] that
    by (simp add: fwd console_def emit_fields filter_append)
  have ign: "on_logOnResponse (Some r) s = s"
    if "eresult r = None \<or> eresult r = Some 0 \<or> eresult r = Some 1"
    using that by (auto simp: on_logOnResponse_def truthy_num_def)
  have err: "retryCount (on_error err s) = retryCount s" "timers (on_error err s) = timers s"
    "exited (on_error err s) = exited s" "delays (trace (on_error err s)) = delays (trace s)"
    "logOn_calls (trace (on_error err s)) = logOn_calls (trace s)"
    by (simp_all add: on_error_def console_def emit_fields filter_append split: option.splits)
  show ?thesis
    using fwd dl ign err
    by (simp add: scheduleRetry_retryCount console_def emit_fields on_logOnResponse_def)
qed

theorem logOnResponse_forwards_witness:
  "on_logOnResponse (Some \<lparr>message = None, eresult = Some 5\<rparr>) w_ex =
     scheduleRetry (Some 5) (console Warn [Str ''LogOnResponse eresult:'', Num 5] w_ex)
   \<and> retryCount (on_logOnResponse (Some \<lparr>message = None, eresult = Some 5\<rparr>) w_ex) = 1
   \<and> delays (trace (on_logOnResponse (Some \<lparr>message = None, eresult = Some 5\<rparr>) w_ex)) = [30000]
   \<and> delays (trace (on_logOnResponse (Some \<lparr>message = None, eresult = Some 84\<rparr>) w_ex)) = [60000]
   \<and> on_logOnResponse (Some \<lparr>message = None, eresult = Some 1\<rparr>) w_ex = w_ex
   \<and> retryCount (on_error (Some \<lparr>message = Some ''InvalidPassword'', eresult = Some 5\<rparr>) w_ex) = 0"
  using logOnResponse_forwards[of "\<lparr>message = None, eresult = Some 5\<rparr>" 5 w_ex
          "Some \<lparr>message = Some ''InvalidPassword'', eresult = Some 5\<rparr>"]
    logOnResponse_forwards[of "\<lparr>message = None, eresult = Some 84\<rparr>" 84 w_ex None]
    logOnResponse_forwards[of "\<lparr>message = None, eresult = Some 1\<rparr>" 5 w_ex None]
  by (auto simp: w_ex_fields)

theorem error_event_not_retried_counterexample:
  "on_error (Some \<lparr>message = Some ''InvalidPassword'', eresult = Some 5\<rparr>) w_ex =
     w_ex\<lparr>trace := [Console Error [Str ''Steam error:'', Str ''InvalidPassword''],
                     Console Error [Str ''eresult code:'', Num 5]]\<rparr>
   \<and> retryCount (on_error (Some \<lparr>message = Some ''InvalidPassword'', eresult = Some 5\<rparr>) w_ex) = 0
   \<and> retryCount (scheduleRetry (Some 5) w_ex) = 1
   \<and> delays (trace (on_error (Some \<lparr>message = Some ''InvalidPassword'', eresult = Some 5\<rparr>) w_ex)) = []
   \<and> delays (trace (scheduleRetry (Some 5) w_ex)) = [30000]"
  by (simp add: on_error_def scheduleRetry_def MAX_RETRIES_def Let_def truthy_num_def truthy_def
        str_of_def effect_defs filter_append w_ex_def)

subsection \<open>One code per built bundle\<close>

lemma build_generator_calls:
  "generator_calls (trace (snd (buildLogOnOptions lib env s))) =
     generator_calls (trace s) @
     (if truthy (SHARED_SECRET env) then [str_of (SHARED_SECRET env)] else [])"
  by (simp add: buildLogOnOptions_def Let_def effect_defs filter_append
        split: sum.splits prod.splits)

lemma build_opts:
  "accountName (fst (buildLogOnOptions lib env s)) = USERNAME env"
  "password (fst (buildLogOnOptions lib env s)) = PASSWORD env"
  "sentry (fst (buildLogOnOptions lib env s)) =
     (if existsSync s then (case readFileSync s of Inr b \<Rightarrow> Some b | Inl m \<Rightarrow> None) else None)"
  "twoFactorCode (fst (buildLogOnOptions lib env s)) =
     (if truthy (SHARED_SECRET env) then
        (case generateAuthCode lib (str_of (SHARED_SECRET env)) (now s) of
           Inr code \<Rightarrow> Some code | Inl m \<Rightarrow> None)
      else None)"
  by (simp_all add: buildLogOnOptions_def Let_def effect_defs split: sum.splits prod.splits)

lemma attemptLogin_generator_calls:
  "generator_calls (trace (attemptLogin lib env s)) =
     generator_calls (trace s) @
     (if truthy (SHARED_SECRET env) then [str_of (SHARED_SECRET env)] else [])"
  by (simp add: attemptLogin_def case_prod_beta Let_def effect_defs filter_append
        scheduleRetry_frame build_generator_calls split: option.splits)

lemma attemptLogin_logOn_calls:
  "logOn_calls (trace (attemptLogin lib env s)) =
     logOn_calls (trace s) @
     (if \<not> truthy (SHARED_SECRET env) \<and> sentry_file s = None then []
      else [fst (buildLogOnOptions lib env s)])"
  by (simp add: attemptLogin_def case_prod_beta Let_def effect_defs filter_append
        scheduleRetry_frame build_frame existsSync_def split: option.splits)

lemma sentry_from_env_frame:
  "now (sentry_from_env lib env s) = now s"
  "generator_calls (trace (sentry_from_env lib env s)) = generator_calls (trace s)"
  "logOn_calls (trace (sentry_from_env lib env s)) = logOn_calls (trace s)"
  by (simp_all add: sentry_from_env_def writeFileSync_def Let_def effect_defs filter_append
        split: option.splits)

lemma logOnOptions_v1_frame:
  "sentry_file (snd (logOnOptions_v1 lib env s)) = sentry_file s"
  "logOn_fault (snd (logOnOptions_v1 lib env s)) = logOn_fault s"
  "writes (trace (snd (logOnOptions_v1 lib env s))) = writes (trace s)"
  "logOn_calls (trace (snd (logOnOptions_v1 lib env s))) = logOn_calls (trace s)"
  "generator_calls (trace (snd (logOnOptions_v1 lib env s))) =
     generator_calls (trace s) @
     (if truthy (SHARED_SECRET env) then [str_of (SHARED_SECRET env)] else [])"
  "twoFactorCode (fst (logOnOptions_v1 lib env s)) =
     (if truthy (SHARED_SECRET env) then
        (case generateAuthCode lib (str_of (SHARED_SECRET env)) (now s) of
           Inr code \<Rightarrow> Some code | Inl m \<Rightarrow> None)
      else None)"
  by (simp_all add: logOnOptions_v1_def Let_def effect_defs filter_append existsSync_def
        split: sum.splits prod.splits)

lemma script_v1_generator:
  assumes "truthy (USERNAME env)" "truthy (PASSWORD env)" "truthy (SHARED_SECRET env)"
  shows "generator_calls (trace (script_v1 lib env w)) = [str_of (SHARED_SECRET env)]"
    and "map twoFactorCode (logOn_calls (trace (script_v1 lib env w))) =
           [case generateAuthCode lib (str_of (SHARED_SECRET env)) (now w) of
              Inr code \<Rightarrow> Some code | Inl m \<Rightarrow> None]"
  using assms
  by (simp_all add: script_v1_def case_prod_beta Let_def emit_fields filter_append
        logOnOptions_v1_frame sentry_from_env_frame boot_fields split: option.splits)

text \<open>
  Claim C5.  With a shared secret present, one call of \<open>buildLogOnOptions\<close> calls the
  code generator exactly once, and the \<open>twoFactorCode\<close> of the bundle is what the
  generator returns at the time of that call (absent when it throws).  Hence every
  \<open>attemptLogin\<close> makes one new call and submits the bundle built in it.  The first
  script builds its only bundle once, with one call of the generator.
\<close>

theorem code_generated_per_build:
  assumes "truthy (SHARED_SECRET env)"
  shows "generator_calls (trace (snd (buildLogOnOptions lib env s))) =
           generator_calls (trace s) @ [str_of (SHARED_SECRET env)]
       \<and> twoFactorCode (fst (buildLogOnOptions lib env s)) =
           (case generateAuthCode lib (str_of (SHARED_SECRET env)) (now s) of
              Inr code \<Rightarrow> Some code | Inl m \<Rightarrow> None)
       \<and> generator_calls (trace (attemptLogin lib env s)) =
           generator_calls (trace s) @ [str_of (SHARED_SECRET env)]
       \<and> logOn_calls (trace (attemptLogin lib env s)) =
           logOn_calls (trace s) @ [fst (buildLogOnOptions lib env s)]
       \<and> (truthy (USERNAME env) \<and> truthy (PASSWORD env) \<longrightarrow>
           generator_calls (trace (script_v1 lib env w)) = [str_of (SHARED_SECRET env)] \<and>
           map twoFactorCode (logOn_calls (trace (script_v1 lib env w))) =
             [case generateAuthCode lib (str_of (SHARED_SECRET env)) (now w) of
                Inr code \<Rightarrow> Some code | Inl m \<Rightarrow> None])"
  using assms
  by (simp add: build_generator_calls build_opts attemptLogin_generator_calls
        attemptLogin_logOn_calls script_v1_generator)

theorem code_generated_per_build_witness:
  "truthy (SHARED_SECRET env_ex)
   \<and> generator_calls (trace (snd (buildLogOnOptions lib_ex env_ex w_ex))) = [''SECRET'']
   \<and> twoFactorCode (fst (buildLogOnOptions lib_ex env_ex w_ex)) = Some ''2F9J5''
   \<and> twoFactorCode (fst (buildLogOnOptions lib_ex env_ex (w_ex\<lparr>now := 30000\<rparr>))) = Some ''7XPQC''
   \<and> generator_calls (trace (attemptLogin lib_ex env_ex (attemptLogin lib_ex env_ex w_ex))) =
       [''SECRET'', ''SECRET'']
   \<and> generator_calls (trace (script_v1 lib_ex env_ex w_ex)) = [''SECRET'']"
proof -
  have h: "truthy (SHARED_SECRET env_ex)" "truthy (USERNAME env_ex)" "truthy (PASSWORD env_ex)"
    by (simp_all add: env_ex_config truthy_Some)
  have n: "now (w_ex\<lparr>now := 30000\<rparr>) = 30000" by simp
  from h n
    code_generated_per_build[OF h(1), of lib_ex w_ex w_ex]
    code_generated_per_build[OF h(1), of lib_ex "w_ex\<lparr>now := 30000\<rparr>" w_ex]
    code_generated_per_build[OF h(1), of lib_ex "attemptLogin lib_ex env_ex w_ex" w_ex]
  show ?thesis
    by (simp add: env_ex_config str_of_def w_ex_fields lib_ex_def)
qed

subsection \<open>The sentry event\<close>

text \<open>
  Claim C6, as the code has it.  On every \<open>sentry\<close> event the handler calls
  \<open>fs.writeFileSync\<close> on the sentry file exactly once.  When the write succeeds the file
  holds the new blob whatever it held before, a second event with the same blob leaves
  the file as it is, and the last line logged is the base64 encoding of the blob.  When
  the write throws, the handler logs a warning with the message of the error and
  nothing else.
\<close>

theorem sentry_event_write:
  "writes (trace (on_sentry lib b s)) = writes (trace s) @ [b]
   \<and> (write_fault s = None \<longrightarrow>
        sentry_file (on_sentry lib b s) = Some b \<and>
        trace (on_sentry lib b s) =
          trace s @
          [WriteFileSync b,
           Console Log [Str ''Saved sentry file locally.''],
           Console Log [Str ''Store this value in your SENTRY env var (base64) to avoid future email codes:''],
           Console Log [Str (toBase64 lib b)]] \<and>
        sentry_file (on_sentry lib b (on_sentry lib b s)) = sentry_file (on_sentry lib b s))
   \<and> (write_fault s = Some m \<longrightarrow>
        trace (on_sentry lib b s) =
          trace s @ [WriteFileSync b, Console Warn [Str ''Failed to save sentry file:'', Str m]])"
  by (simp add: on_sentry_def writeFileSync_def Let_def effect_defs filter_append
        split: option.splits)

theorem sentry_event_write_witness:
  "writes (trace (on_sentry lib_ex [1, 2, 3] (w_ex\<lparr>sentry_file := Some [9]\<rparr>))) = [[1, 2, 3]]
   \<and> sentry_file (on_sentry lib_ex [1, 2, 3] (w_ex\<lparr>sentry_file := Some [9]\<rparr>)) = Some [1, 2, 3]
   \<and> last (trace (on_sentry lib_ex [1, 2, 3] (w_ex\<lparr>sentry_file := Some [9]\<rparr>))) =
       Console Log [Str (toBase64 lib_ex [1, 2, 3])]
   \<and> trace (on_sentry lib_ex [1, 2, 3] (w_ex\<lparr>write_fault := Some ''EROFS''\<rparr>)) =
       [WriteFileSync [1, 2, 3], Console Warn [Str ''Failed to save sentry file:'', Str ''EROFS'']]"
  using sentry_event_write[of lib_ex "[1, 2, 3]" "w_ex\<lparr>sentry_file := Some [9]\<rparr>" "''EROFS''"]
    sentry_event_write[of lib_ex "[1, 2, 3]" "w_ex\<lparr>write_fault := Some ''EROFS''\<rparr>" "''EROFS''"]
  by (simp add: w_ex_fields)

theorem sentry_write_fails_counterexample:
  "Console Log [Str (toBase64 lib_ex [1, 2, 3])]
     \<notin> set (trace (on_sentry lib_ex [1, 2, 3] (w_ex\<lparr>write_fault := Some ''EROFS''\<rparr>)))
   \<and> sentry_file (on_sentry lib_ex [1, 2, 3] (w_ex\<lparr>write_fault := Some ''EROFS''\<rparr>)) = None"
  by (simp add: on_sentry_def writeFileSync_def Let_def effect_defs w_ex_def)

subsection \<open>A failing code generator\<close>

text \<open>
  Claim C7.  When the shared secret is present and the generator throws, the bundle has
  the account name and the password, no \<open>twoFactorCode\<close>, and the content of the sentry
  file when it can be read; the failure is logged as a warning; the process does not
  exit in the builder, and \<open>attemptLogin\<close> calls \<open>client.logOn\<close> with that bundle.
\<close>

theorem generator_failure_not_fatal:
  assumes "truthy (SHARED_SECRET env)"
    and "generateAuthCode lib (str_of (SHARED_SECRET env)) (now s) = Inl m"
  shows "accountName (fst (buildLogOnOptions lib env s)) = USERNAME env
       \<and> password (fst (buildLogOnOptions lib env s)) = PASSWORD env
       \<and> twoFactorCode (fst (buildLogOnOptions lib env s)) = None
       \<and> (read_fault s = None \<longrightarrow> sentry (fst (buildLogOnOptions lib env s)) = sentry_file s)
       \<and> last (trace (snd (buildLogOnOptions lib env s))) =
           Console Warn [Str ''Failed to generate 2FA code from SHARED_SECRET:'', Str m]
       \<and> exited (snd (buildLogOnOptions lib env s)) = exited s
       \<and> logOn_calls (trace (attemptLogin lib env s)) =
           logOn_calls (trace s) @ [fst (buildLogOnOptions lib env s)]
       \<and> (logOn_fault s = None \<longrightarrow> exited (attemptLogin lib env s) = exited s)"
proof -
  have "last (trace (snd (buildLogOnOptions lib env s))) =
          Console Warn [Str ''Failed to generate 2FA code from SHARED_SECRET:'', Str m]"
    using assms
    by (simp add: buildLogOnOptions_def Let_def effect_defs split: sum.splits prod.splits)
  moreover have "read_fault s = None \<longrightarrow> sentry (fst (buildLogOnOptions lib env s)) = sentry_file s"
    by (auto simp: build_opts existsSync_def readFileSync_def)
  ultimately show ?thesis
    using assms
    by (simp add: build_opts build_frame attemptLogin_logOn_calls attemptLogin_running)
qed

theorem generator_failure_not_fatal_witness:
  "truthy (SHARED_SECRET (env_ex\<lparr>env_SHARED_SECRET := Some ''bad''\<rparr>))
   \<and> generateAuthCode lib_ex ''bad'' 0 = Inl ''Invalid shared secret''
   \<and> fst (buildLogOnOptions lib_ex (env_ex\<lparr>env_SHARED_SECRET := Some ''bad''\<rparr>)
            (w_ex\<lparr>sentry_file := Some [7, 7]\<rparr>)) =
       \<lparr>accountName = Some ''acct'', password = Some ''pw'', sentry = Some [7, 7],
        twoFactorCode = None\<rparr>
   \<and> logOn_calls (trace (attemptLogin lib_ex (env_ex\<lparr>env_SHARED_SECRET := Some ''bad''\<rparr>)
            (w_ex\<lparr>sentry_file := Some [7, 7]\<rparr>))) =
       [\<lparr>accountName = Some ''acct'', password = Some ''pw'', sentry = Some [7, 7],
         twoFactorCode = None\<rparr>]
   \<and> exited (attemptLogin lib_ex (env_ex\<lparr>env_SHARED_SECRET := Some ''bad''\<rparr>)
            (w_ex\<lparr>sentry_file := Some [7, 7]\<rparr>)) = None"
proof -
  let ?env = "env_ex\<lparr>env_SHARED_SECRET := Some ''bad''\<rparr>"
  let ?s = "w_ex\<lparr>sentry_file := Some [7, 7]\<rparr>"
  have c: "SHARED_SECRET ?env = Some ''bad''" "USERNAME ?env = Some ''acct''"
    "PASSWORD ?env = Some ''pw''"
    by (simp_all add: env_defs env_ex_def)
  have h1: "truthy (SHARED_SECRET ?env)" by (simp add: c truthy_Some)
  have g: "generateAuthCode lib_ex ''bad'' 0 = Inl ''Invalid shared secret''"
    by (simp add: lib_ex_def)
  have h2: "generateAuthCode lib_ex (str_of (SHARED_SECRET ?env)) (now ?s) = Inl ''Invalid shared secret''"
    by (simp add: c str_of_def w_ex_fields g)
  have eq: "opts = \<lparr>accountName = accountName opts, password = password opts,
              sentry = sentry opts, twoFactorCode = twoFactorCode opts\<rparr>" for opts :: logOnOptions
    by simp
  from generator_failure_not_fatal[OF h1 h2] h1 g c
  show ?thesis
    by (subst (1 2) eq) (simp add: w_ex_fields)
qed

subsection \<open>Missing account name or password\<close>

lemma foldl_step_exited: "exited s \<noteq> None \<Longrightarrow> foldl (step lib env) s evs = s"
  by (induction evs) (simp_all add: step_def)

text \<open>
  Claim C8.  When the account name or the password is missing (absent or empty under
  both spellings of the variable), both scripts log one error and exit with status 1:
  nothing is written, no log-on is attempted, no timer is set, and no later event is
  handled.
\<close>

theorem missing_credentials_fatal:
  assumes "\<not> truthy (USERNAME env) \<or> \<not> truthy (PASSWORD env)"
  shows "exited (script lib env w) = Some 1
       \<and> trace (script lib env w) =
           [Console Error [Str ''ERROR: USERNAME and PASSWORD environment variables are required.''],
            Exit 1]
       \<and> sentry_file (script lib env w) = sentry_file w
       \<and> timers (script lib env w) = 0
       \<and> run lib env w evs = script lib env w
       \<and> exited (script_v1 lib env w) = Some 1
       \<and> trace (script_v1 lib env w) =
           [Console Error [Str ''ERROR: USERNAME and PASSWORD environment variables are required.''],
            Exit 1]
       \<and> sentry_file (script_v1 lib env w) = sentry_file w"
proof -
  have s: "script lib env w =
      process_exit 1
        (console Error [Str ''ERROR: USERNAME and PASSWORD environment variables are required.'']
          (boot w))"
    using assms by (auto simp: script_def Let_def)
  have v1: "script_v1 lib env w =
      process_exit 1
        (console Error [Str ''ERROR: USERNAME and PASSWORD environment variables are required.'']
          (boot w))"
    using assms by (auto simp: script_v1_def Let_def)
  have "exited (script lib env w) \<noteq> None"
    by (simp add: s process_exit_fields)
  then have "run lib env w evs = script lib env w"
    by (simp add: run_def foldl_step_exited)
  then show ?thesis
    by (simp add: s v1 effect_defs boot_fields)
qed

theorem missing_credentials_fatal_witness:
  "\<not> truthy (USERNAME (env_ex\<lparr>env_USERNAME := None\<rparr>))
   \<and> \<not> truthy (PASSWORD (env_ex\<lparr>env_password := Some []\<rparr>))
   \<and> exited (script lib_ex (env_ex\<lparr>env_USERNAME := None\<rparr>) w_ex) = Some 1
   \<and> run lib_ex (env_ex\<lparr>env_password := Some []\<rparr>) w_ex [TimerFired, Sentry [1, 2, 3]] =
       script lib_ex (env_ex\<lparr>env_password := Some []\<rparr>) w_ex
   \<and> exited (script_v1 lib_ex (env_ex\<lparr>env_USERNAME := None\<rparr>) w_ex) = Some 1"
proof -
  have h: "\<not> truthy (USERNAME (env_ex\<lparr>env_USERNAME := None\<rparr>))"
    "\<not> truthy (PASSWORD (env_ex\<lparr>env_password := Some []\<rparr>))"
    by (simp_all add: env_defs env_ex_def)
  from h
    missing_credentials_fatal[OF disjI1, OF h(1), of lib_ex w_ex "[]"]
    missing_credentials_fatal[OF disjI2, OF h(2), of lib_ex w_ex "[TimerFired, Sentry [1, 2, 3]]"]
  show ?thesis by simp
qed

subsection \<open>Neither shared secret nor sentry file\<close>

lemma show_int_1: "show_int 1 = ''1''"
  by code_simp

text \<open>
  Claim C9, as the code has it.  The guard of \<open>attemptLogin\<close> tests whether the sentry
  file exists, not whether a token was loaded.  With no shared secret and no sentry
  file, \<open>attemptLogin\<close> logs two errors and exits with status 1 without calling
  \<open>client.logOn\<close>; the retry counter and the timers are left alone.  With no shared
  secret and a sentry file that exists, \<open>attemptLogin\<close> calls \<open>client.logOn\<close> with the
  bundle it built and does not exit in the guard; that bundle has no one-time code, and
  it has the content of the file when the file can be read and no token at all when
  reading it throws.
\<close>

theorem no_secret_no_sentry_fatal:
  assumes "\<not> truthy (SHARED_SECRET env)"
  shows "(sentry_file s = None \<longrightarrow>
            exited (attemptLogin lib env s) = Some 1 \<and>
            trace (attemptLogin lib env s) =
              trace s @
              [Console Error [Str ''No SHARED_SECRET and no SENTRY file present. This environment will likely require an email code.''],
               Console Error [Str ''Set SHARED_SECRET env var (preferred) or provide a SENTRY env var with a base64 saved sentry blob.''],
               Exit 1] \<and>
            logOn_calls (trace (attemptLogin lib env s)) = logOn_calls (trace s) \<and>
            retryCount (attemptLogin lib env s) = retryCount s \<and>
            timers (attemptLogin lib env s) = timers s)
       \<and> (sentry_file s \<noteq> None \<longrightarrow>
            logOn_calls (trace (attemptLogin lib env s)) =
              logOn_calls (trace s) @ [fst (buildLogOnOptions lib env s)] \<and>
            twoFactorCode (fst (buildLogOnOptions lib env s)) = None \<and>
            (read_fault s = None \<longrightarrow> sentry (fst (buildLogOnOptions lib env s)) = sentry_file s) \<and>
            (read_fault s \<noteq> None \<longrightarrow> sentry (fst (buildLogOnOptions lib env s)) = None) \<and>
            (logOn_fault s = None \<longrightarrow> exited (attemptLogin lib env s) = exited s))"
proof (intro conjI impI)
  assume none: "sentry_file s = None"
  have b: "buildLogOnOptions lib env s =
      (\<lparr>accountName = USERNAME env, password = PASSWORD env, sentry = None,
        twoFactorCode = None\<rparr>, s)"
    using assms none by (simp add: buildLogOnOptions_def existsSync_def)
  show "exited (attemptLogin lib env s) = Some 1"
    "trace (attemptLogin lib env s) =
       trace s @
       [Console Error [Str ''No SHARED_SECRET and no SENTRY file present. This environment will likely require an email code.''],
        Console Error [Str ''Set SHARED_SECRET env var (preferred) or provide a SENTRY env var with a base64 saved sentry blob.''],
        Exit 1]"
    "logOn_calls (trace (attemptLogin lib env s)) = logOn_calls (trace s)"
    "retryCount (attemptLogin lib env s) = retryCount s"
    "timers (attemptLogin lib env s) = timers s"
    using assms none
    by (simp_all add: attemptLogin_def b existsSync_def effect_defs filter_append)
next
  assume some: "sentry_file s \<noteq> None"
  show "logOn_calls (trace (attemptLogin lib env s)) =
          logOn_calls (trace s) @ [fst (buildLogOnOptions lib env s)]"
    using some by (simp add: attemptLogin_logOn_calls)
  show "twoFactorCode (fst (buildLogOnOptions lib env s)) = None"
    using assms by (simp add: build_opts)
  {
    assume "read_fault s = None"
    with some show "sentry (fst (buildLogOnOptions lib env s)) = sentry_file s"
      by (auto simp: build_opts existsSync_def readFileSync_def)
  }
  {
    assume "read_fault s \<noteq> None"
    with some show "sentry (fst (buildLogOnOptions lib env s)) = None"
      by (auto simp: build_opts existsSync_def readFileSync_def)
  }
  {
    assume "logOn_fault s = None"
    with some show "exited (attemptLogin lib env s) = exited s"
      by (simp add: attemptLogin_running)
  }
qed

theorem no_secret_no_sentry_fatal_witness:
  "\<not> truthy (SHARED_SECRET (env_ex\<lparr>env_SHARED_SECRET := None\<rparr>))
   \<and> exited (attemptLogin lib_ex (env_ex\<lparr>env_SHARED_SECRET := None\<rparr>) w_ex) = Some 1
   \<and> logOn_calls (trace (attemptLogin lib_ex (env_ex\<lparr>env_SHARED_SECRET := None\<rparr>) w_ex)) = []
   \<and> sentry (fst (buildLogOnOptions lib_ex (env_ex\<lparr>env_SHARED_SECRET := None\<rparr>)
                     (w_ex\<lparr>sentry_file := Some [4, 2]\<rparr>))) = Some [4, 2]
   \<and> exited (attemptLogin lib_ex (env_ex\<lparr>env_SHARED_SECRET := None\<rparr>)
               (w_ex\<lparr>sentry_file := Some [4, 2]\<rparr>)) = None
   \<and> sentry (fst (buildLogOnOptions lib_ex (env_ex\<lparr>env_SHARED_SECRET := None\<rparr>)
                     (w_ex\<lparr>sentry_file := Some [4, 2], read_fault := Some ''EACCES''\<rparr>))) = None
   \<and> exited (attemptLogin lib_ex (env_ex\<lparr>env_SHARED_SECRET := None\<rparr>)
               (w_ex\<lparr>sentry_file := Some [4, 2], read_fault := Some ''EACCES''\<rparr>)) = None"
proof -
  have h: "\<not> truthy (SHARED_SECRET (env_ex\<lparr>env_SHARED_SECRET := None\<rparr>))"
    by (simp add: env_defs env_ex_def)
  from h
    no_secret_no_sentry_fatal[OF h, of w_ex lib_ex]
    no_secret_no_sentry_fatal[OF h, of "w_ex\<lparr>sentry_file := Some [4, 2]\<rparr>" lib_ex]
    no_secret_no_sentry_fatal[OF h,
      of "w_ex\<lparr>sentry_file := Some [4, 2], read_fault := Some ''EACCES''\<rparr>" lib_ex]
  show ?thesis by (simp add: w_ex_fields)
qed

theorem unreadable_sentry_login_counterexample:
  "\<not> truthy (SHARED_SECRET (env_ex\<lparr>env_SHARED_SECRET := None\<rparr>))
   \<and> exited (attemptLogin lib_ex (env_ex\<lparr>env_SHARED_SECRET := None\<rparr>)
               (w_ex\<lparr>sentry_file := Some [4, 2], read_fault := Some ''EACCES''\<rparr>)) = None
   \<and> trace (attemptLogin lib_ex (env_ex\<lparr>env_SHARED_SECRET := None\<rparr>)
               (w_ex\<lparr>sentry_file := Some [4, 2], read_fault := Some ''EACCES''\<rparr>)) =
       [Console Warn [Str ''Failed to read sentry file:'', Str ''EACCES''],
        Console Log [Str ''Attempting login (attempt #1)''],
        LogOn \<lparr>accountName = Some ''acct'', password = Some ''pw'', sentry = None,
               twoFactorCode = None\<rparr>]"
  by (simp add: attemptLogin_def buildLogOnOptions_def existsSync_def readFileSync_def Let_def
        effect_defs env_defs env_ex_def w_ex_def show_int_1)

subsection \<open>The sentry file at start-up\<close>

lemma sentry_from_env_writes:
  "writes (trace (sentry_from_env lib env s)) =
     writes (trace s) @
     (if truthy (SENTRY_ENV env) \<and> sentry_file s = None
      then [fromBase64 lib (str_of (SENTRY_ENV env))] else [])"
  by (simp add: sentry_from_env_def writeFileSync_def existsSync_def Let_def effect_defs
        filter_append split: option.splits)

lemma sentry_from_env_exists: "sentry_file s \<noteq> None \<Longrightarrow> sentry_from_env lib env s = s"
  by (simp add: sentry_from_env_def existsSync_def)

lemma script_v1_frame:
  "sentry_file (script_v1 lib env w) =
     (if \<not> truthy (USERNAME env) \<or> \<not> truthy (PASSWORD env) then sentry_file w
      else sentry_file (sentry_from_env lib env (boot w)))"
  "writes (trace (script_v1 lib env w)) =
     (if \<not> truthy (USERNAME env) \<or> \<not> truthy (PASSWORD env) then []
      else writes (trace (sentry_from_env lib env (boot w))))"
  by (simp_all add: script_v1_def case_prod_beta Let_def emit_fields process_exit_fields
        console_def filter_append boot_fields logOnOptions_v1_frame split: option.splits)

lemma script_frame:
  "sentry_file (script lib env w) =
     (if \<not> truthy (USERNAME env) \<or> \<not> truthy (PASSWORD env) then sentry_file w
      else sentry_file (sentry_from_env lib env (boot w)))"
  "writes (trace (script lib env w)) =
     (if \<not> truthy (USERNAME env) \<or> \<not> truthy (PASSWORD env) then []
      else writes (trace (sentry_from_env lib env (boot w))))"
  by (simp_all add: script_def Let_def effect_defs filter_append boot_fields attemptLogin_frame)

text \<open>
  Claim C10.  The start-up block writes the decoded \<open>SENTRY\<close> variable exactly when the
  variable is set and no sentry file exists.  When a sentry file exists the block
  changes nothing, and the whole start-up of either script leaves the file as it is and
  writes nothing; so a start-up that writes found no file.
\<close>

theorem startup_keeps_stored_sentry:
  "writes (trace (sentry_from_env lib env s)) =
     writes (trace s) @
     (if truthy (SENTRY_ENV env) \<and> sentry_file s = None
      then [fromBase64 lib (str_of (SENTRY_ENV env))] else [])
   \<and> (sentry_file s \<noteq> None \<longrightarrow> sentry_from_env lib env s = s)
   \<and> (sentry_file w \<noteq> None \<longrightarrow>
        sentry_file (script lib env w) = sentry_file w \<and> writes (trace (script lib env w)) = [] \<and>
        sentry_file (script_v1 lib env w) = sentry_file w \<and>
        writes (trace (script_v1 lib env w)) = [])
   \<and> (writes (trace (script lib env w)) \<noteq> [] \<or> writes (trace (script_v1 lib env w)) \<noteq> [] \<longrightarrow>
        sentry_file w = None \<and> truthy (SENTRY_ENV env))"
proof -
  have keep: "sentry_file w \<noteq> None \<Longrightarrow> sentry_from_env lib env (boot w) = boot w"
    by (simp add: sentry_from_env_exists boot_fields)
  have w: "writes (trace (sentry_from_env lib env (boot w))) =
      (if truthy (SENTRY_ENV env) \<and> sentry_file w = None
       then [fromBase64 lib (str_of (SENTRY_ENV env))] else [])"
    by (simp add: sentry_from_env_writes boot_fields)
  show ?thesis
    by (auto simp: sentry_from_env_writes sentry_from_env_exists script_frame script_v1_frame
          keep w boot_fields split: if_splits)
qed

theorem startup_keeps_stored_sentry_witness:
  "sentry_file (script lib_ex (env_ex\<lparr>env_SENTRY := Some ''c2VudHJ5''\<rparr>)
                 (w_ex\<lparr>sentry_file := Some [4, 2]\<rparr>)) = Some [4, 2]
   \<and> writes (trace (script lib_ex (env_ex\<lparr>env_SENTRY := Some ''c2VudHJ5''\<rparr>)
                 (w_ex\<lparr>sentry_file := Some [4, 2]\<rparr>))) = []
   \<and> sentry_file (script_v1 lib_ex (env_ex\<lparr>env_SENTRY := Some ''c2VudHJ5''\<rparr>)
                 (w_ex\<lparr>sentry_file := Some [4, 2]\<rparr>)) = Some [4, 2]
   \<and> writes (trace (sentry_from_env lib_ex (env_ex\<lparr>env_SENTRY := Some ''c2VudHJ5''\<rparr>) w_ex)) =
       [fromBase64 lib_ex ''c2VudHJ5'']"
proof -
  have c: "SENTRY_ENV (env_ex\<lparr>env_SENTRY := Some ''c2VudHJ5''\<rparr>) = Some ''c2VudHJ5''"
    by (simp add: env_defs)
  from startup_keeps_stored_sentry[of lib_ex "env_ex\<lparr>env_SENTRY := Some ''c2VudHJ5''\<rparr>"
         w_ex "w_ex\<lparr>sentry_file := Some [4, 2]\<rparr>"]
  show ?thesis
    by (simp add: c truthy_Some str_of_def w_ex_fields)
qed

end
